theory Spec2Isabelle
  imports Main "HOL-Library.Char_ord" "HOL-Library.List_Lexorder"
begin

section \<open>csv2kicad\_energymicro: the pin layout engine of \<open>efm2kicad_generator\<close>\<close>

text \<open>
  The embedding follows \<open>efm2kicad_generator\<close> stage by stage, from the rows of
  \<open>csv_list_str\<close> that are left once the device description is cut off (the heading
  row first, then one row per pin) to the pair of \<open>unit_boxes\<close> and \<open>sorted_table\<close>.  Python exceptions are values of
  \<open>py_error\<close>; a stage that can raise returns \<open>py_error + 'a\<close>.
\<close>

datatype py_error = IndexError | KeyError | ValueError | NameError

subsection \<open>Stage 1: the rows of the CSV file, joined again\<close>

fun join_semi :: "string list \<Rightarrow> string" where
  \<comment> \<open>\<open>';'.join(map(str, row))\<close>\<close>
  "join_semi [] = []"
| "join_semi [f] = f"
| "join_semi (f # g # fs) = f @ CHR '';'' # join_semi (g # fs)"

definition em_data_list :: "string list list \<Rightarrow> string list" where
  \<comment> \<open>\<open>csv_list_str\<close> after \<open>del csv_list_str[0:8+1]\<close>: the heading row and the pin rows\<close>
  "em_data_list csv_list_str = map join_semi csv_list_str"

subsection \<open>Character classes of the \<open>re\<close> module (byte strings, no flags)\<close>

definition is_digit :: "char \<Rightarrow> bool" where
  "is_digit c \<longleftrightarrow> CHR ''0'' \<le> c \<and> c \<le> CHR ''9''"

definition is_upper :: "char \<Rightarrow> bool" where
  "is_upper c \<longleftrightarrow> CHR ''A'' \<le> c \<and> c \<le> CHR ''Z''"

definition is_lower :: "char \<Rightarrow> bool" where
  "is_lower c \<longleftrightarrow> CHR ''a'' \<le> c \<and> c \<le> CHR ''z''"

definition is_word :: "char \<Rightarrow> bool" where
  \<comment> \<open>\<open>\w\<close> is \<open>[a-zA-Z0-9_]\<close>\<close>
  "is_word c \<longleftrightarrow> is_digit c \<or> is_upper c \<or> is_lower c \<or> c = CHR ''_''"

definition is_space :: "char \<Rightarrow> bool" where
  \<comment> \<open>\<open>\s\<close> is \<open>[ \t\n\r\f\v]\<close>\<close>
  "is_space c \<longleftrightarrow> c = CHR '' '' \<or> (CHR 0x09 \<le> c \<and> c \<le> CHR 0x0D)"

definition is_dot :: "char \<Rightarrow> bool" where
  \<comment> \<open>\<open>.\<close> matches any character but a newline\<close>
  "is_dot c \<longleftrightarrow> c \<noteq> CHR 0x0A"

definition to_lower :: "char \<Rightarrow> char" where
  "to_lower c =
     (if is_upper c then
        (case map_of (zip ''ABCDEFGHIJKLMNOPQRSTUVWXYZ'' ''abcdefghijklmnopqrstuvwxyz'') c of
           Some l \<Rightarrow> l | None \<Rightarrow> c)
      else c)"

fun starts_with :: "string \<Rightarrow> string \<Rightarrow> bool" where
  "starts_with [] s = True"
| "starts_with (p # ps) [] = False"
| "starts_with (p # ps) (c # cs) = (if p = c then starts_with ps cs else False)"

fun starts_with_ci :: "string \<Rightarrow> string \<Rightarrow> bool" where
  \<comment> \<open>\<open>(?i)\<close>: the pattern is given in lower case\<close>
  "starts_with_ci [] s = True"
| "starts_with_ci (p # ps) [] = False"
| "starts_with_ci (p # ps) (c # cs) = (if to_lower c = p then starts_with_ci ps cs else False)"

subsection \<open>\<open>re.sub\<close>: every non-overlapping match, leftmost first\<close>

text \<open>
  A pattern is given by its matcher at the start of the rest of the line: the
  replacement text and the number of characters the match consumes (never 0 for the
  patterns of this program).  The counter is the number of characters of the last match
  still to be skipped.
\<close>

type_synonym matcher = "string \<Rightarrow> (string \<times> nat) option"

fun re_sub :: "matcher \<Rightarrow> nat \<Rightarrow> string \<Rightarrow> string" where
  "re_sub m k [] = []"
| "re_sub m (Suc k) (c # cs) = re_sub m k cs"
| "re_sub m 0 (c # cs) =
     (case m (c # cs) of
        None \<Rightarrow> c # re_sub m 0 cs
      | Some (rep, n) \<Rightarrow> rep @ re_sub m (n - 1) cs)"

text \<open>\<open>//\s(?=\w)\<close> replaced by the empty string.\<close>

definition m_comment :: matcher where
  "m_comment s =
     (if starts_with ''//'' s then
        (case drop 2 s of
           c # d # _ \<Rightarrow> if is_space c then (if is_word d then Some ([], 3) else None) else None
         | _ \<Rightarrow> None)
      else None)"

text \<open>\<open>(Pin.name;)\<close> replaced by \<open>\1Unit;\<close>.\<close>

definition m_pin_name :: matcher where
  "m_pin_name s =
     (if starts_with ''Pin'' s then
        (case drop 3 s of
           x # r \<Rightarrow>
             if is_dot x then
               (if starts_with ''name;'' r then Some (take 9 s @ ''Unit;'', 9) else None)
             else None
         | [] \<Rightarrow> None)
      else None)"

text \<open>
  \<open>((PA|PB)\d{1,2});\<close> replaced by \<open>\1/;1;\<close>, and the same for the banks of units 2
  and 3: \<open>a\<close> and \<open>b\<close> are the two bank letters, \<open>u\<close> the unit digit.  Two digits
  are tried first.
\<close>

definition m_gpio :: "char \<Rightarrow> char \<Rightarrow> char \<Rightarrow> matcher" where
  "m_gpio a b u s =
     (if starts_with ''P'' s then
        (case tl s of
           x # d # r \<Rightarrow>
             if x = a \<or> x = b then
               if is_digit d then
                 (case r of
                    e # r' \<Rightarrow>
                      if e = CHR '';'' then Some (take 3 s @ ''/;'' @ [u] @ '';'', 4)
                      else if is_digit e then
                        (if starts_with '';'' r' then Some (take 4 s @ ''/;'' @ [u] @ '';'', 5)
                         else None)
                      else None
                  | [] \<Rightarrow> None)
               else None
             else None
         | _ \<Rightarrow> None)
      else None)"

text \<open>
  \<open>(^\w*\d{1,2};(IOVD.*?|A{0,1}VSS.*?|A{0,1}VDD.*?|RESE.*?|DECO.*?|USB_.*?));\<close>
  replaced by \<open>\1;4;\<close>.  The pattern is anchored, so it matches at most once: the
  first field is a run of word characters ending in a digit, the second field starts
  with one of the tokens, and the lazy \<open>.*?\<close> runs to the next semicolon.
\<close>

definition power_tokens :: "string list" where
  "power_tokens = [''IOVD'', ''AVSS'', ''VSS'', ''AVDD'', ''VDD'', ''RESE'', ''DECO'', ''USB_'']"

definition lazy_dots :: "char \<Rightarrow> bool" where
  \<comment> \<open>the characters \<open>.*?\<close> runs over before the closing \<open>;\<close>\<close>
  "lazy_dots c \<longleftrightarrow> c \<noteq> CHR '';'' \<and> is_dot c"

definition sub_power :: "string \<Rightarrow> string" where
  "sub_power line =
     (case takeWhile is_word line of
        [] \<Rightarrow> line
      | f # fs \<Rightarrow>
          if is_digit (last (f # fs)) then
            (case drop (length (f # fs)) line of
               [] \<Rightarrow> line
             | s # name \<Rightarrow>
                 if s = CHR '';'' then
                   (case filter (\<lambda>t. starts_with t name) power_tokens of
                      [] \<Rightarrow> line
                    | t # _ \<Rightarrow>
                        (case dropWhile lazy_dots (drop (length t) name) of
                           [] \<Rightarrow> line
                         | e # rest \<Rightarrow>
                             if e = CHR '';''
                             then f # fs @ '';'' @ t @
                                  takeWhile lazy_dots (drop (length t) name) @ '';4;'' @ rest
                             else line))
                 else line)
          else line)"

text \<open>The plain patterns \<open> #\<close>, \<open> / \<close>, \<open>,\<close> and \<open>\s\<close>.\<close>

definition m_space_hash :: matcher where
  "m_space_hash s = (if starts_with '' #'' s then Some (''_#'', 2) else None)"

definition m_space_slash :: matcher where
  "m_space_slash s = (if starts_with '' / '' s then Some (''/'', 3) else None)"

definition m_comma :: matcher where
  "m_comma s = (if starts_with '','' s then Some (''-'', 1) else None)"

definition m_space :: matcher where
  "m_space s = (case s of c # _ \<Rightarrow> if is_space c then Some (''_'', 1) else None | [] \<Rightarrow> None)"

text \<open>The pin type abbreviations \<open>(?i)unknown\<close>, \<open>(?i)power\<close>, \<open>(?i)passive\<close>.\<close>

definition m_word_ci :: "string \<Rightarrow> string \<Rightarrow> matcher" where
  "m_word_ci p rep s = (if starts_with_ci p s then Some (rep, length p) else None)"

text \<open>\<open>(^\d{1,2};USB_VREGO;4);W;\<close> replaced by \<open>\1;w;\<close>.\<close>

definition sub_power_out :: "string \<Rightarrow> string" where
  "sub_power_out line =
     (case line of
        d # r \<Rightarrow>
          if is_digit d then
            (if starts_with '';USB_VREGO;4;W;'' r
             then d # '';USB_VREGO;4;w;'' @ drop 15 r
             else (case r of
                     e # r' \<Rightarrow>
                       if is_digit e then
                         (if starts_with '';USB_VREGO;4;W;'' r'
                          then d # e # '';USB_VREGO;4;w;'' @ drop 15 r'
                          else line)
                       else line
                   | [] \<Rightarrow> line))
          else line
      | [] \<Rightarrow> line)"

subsection \<open>Stage 2: the line by line edits\<close>

definition classify_line :: "string \<Rightarrow> string" where
  \<comment> \<open>the four substitutions that insert the unit number\<close>
  "classify_line line =
     sub_power
       (re_sub (m_gpio CHR ''E'' CHR ''F'' CHR ''3'') 0
         (re_sub (m_gpio CHR ''C'' CHR ''D'' CHR ''2'') 0
           (re_sub (m_gpio CHR ''A'' CHR ''B'' CHR ''1'') 0 line)))"

definition tidy_line :: "string \<Rightarrow> string" where
  "tidy_line line =
     (let l1 = re_sub m_comment 0 line;
          l2 = re_sub m_pin_name 0 l1;
          l3 = classify_line l2;
          l4 = re_sub m_space_hash 0 l3;
          l5 = re_sub m_space_slash 0 l4;
          l6 = re_sub m_comma 0 l5;
          l7 = re_sub m_space 0 l6;
          l8 = re_sub (m_word_ci ''unknown'' ''U'') 0 l7;
          l9 = re_sub (m_word_ci ''power'' ''W'') 0 l8;
          l10 = sub_power_out l9
      in re_sub (m_word_ci ''passive'' ''P'') 0 l10)"

subsection \<open>Stage 3: splitting at semicolons and reordering the columns\<close>

fun split_semi :: "string \<Rightarrow> string list" where
  "split_semi [] = [[]]"
| "split_semi (c # cs) =
     (if c = CHR '';'' then [] # split_semi cs
      else (case split_semi cs of f # fs \<Rightarrow> (c # f) # fs | [] \<Rightarrow> [[c]]))"

definition writenames :: "string list" where
  "writenames = [''Pin_name'', ''Functionality'', ''Pin_id'', ''Unit'', ''Pin_type'']"

fun name2index :: "string list \<Rightarrow> nat \<Rightarrow> (string \<rightharpoonup> nat)" where
  \<comment> \<open>\<open>dict((k, v) for v, k in enumerate(heading))\<close>: a later column wins\<close>
  "name2index [] i = Map.empty"
| "name2index (k # ks) i =
     (if k \<in> set ks then name2index ks (Suc i) else (name2index ks (Suc i))(k \<mapsto> i))"

text \<open>
  \<open>writenames\<close> is the fixed list \<open>Pin_name;Functionality;Pin_id;Unit;Pin_type\<close>, so a
  row of \<open>data\<close> always has these five columns, in this order.
\<close>

record columns =
  c_name :: nat
  c_func :: nat
  c_id :: nat
  c_unit :: nat
  c_type :: nat

definition writeindices :: "(string \<rightharpoonup> nat) \<Rightarrow> py_error + columns" where
  \<comment> \<open>\<open>[name2index[k] for k in writenames]\<close>\<close>
  "writeindices d =
     (case (d ''Pin_name'', d ''Functionality'', d ''Pin_id'', d ''Unit'', d ''Pin_type'') of
        (Some a, Some b, Some c, Some e, Some f) \<Rightarrow>
          Inr \<lparr>c_name = a, c_func = b, c_id = c, c_unit = e, c_type = f\<rparr>
      | _ \<Rightarrow> Inl KeyError)"

record pin_row =
  pin_name :: string
  functionality :: string
  pin_id :: string
  unit :: string
  pin_type :: string

definition data_row :: "columns \<Rightarrow> string list \<Rightarrow> py_error + pin_row" where
  \<comment> \<open>\<open>[row[i] for i in writeindices]\<close>\<close>
  "data_row cols row =
     (if c_name cols < length row \<and> c_func cols < length row \<and> c_id cols < length row \<and>
         c_unit cols < length row \<and> c_type cols < length row
      then Inr \<lparr>pin_name = row ! c_name cols, functionality = row ! c_func cols,
                pin_id = row ! c_id cols, unit = row ! c_unit cols,
                pin_type = row ! c_type cols\<rparr>
      else Inl IndexError)"

fun data_rows :: "columns \<Rightarrow> string list list \<Rightarrow> py_error + pin_row list" where
  "data_rows cols [] = Inr []"
| "data_rows cols (row # rows) =
     (case data_row cols row of
        Inl e \<Rightarrow> Inl e
      | Inr r \<Rightarrow> (case data_rows cols rows of Inl e \<Rightarrow> Inl e | Inr rs \<Rightarrow> Inr (r # rs)))"

definition reorder_columns :: "string list \<Rightarrow> py_error + pin_row list" where
  \<comment> \<open>from the lines of \<open>em_data_list\<close> to \<open>data\<close>, heading row included\<close>
  "reorder_columns lines =
     (case map (split_semi \<circ> tidy_line) lines of
        [] \<Rightarrow> Inl IndexError
      | heading # rows \<Rightarrow>
          (case writeindices (name2index heading 0) of
             Inl e \<Rightarrow> Inl e
           | Inr cols \<Rightarrow> data_rows cols (heading # rows)))"

subsection \<open>Natural alphanumeric sort\<close>

text \<open>
  \<open>re.split('([0-9]+)', s)\<close> cuts \<open>s\<close> at its maximal digit runs and keeps them: the
  pieces alternate between digit-free text (possibly empty) and digits.
\<close>

function re_split_digits :: "string \<Rightarrow> string list" where
  "re_split_digits s =
     (case dropWhile (\<lambda>c. \<not> is_digit c) s of
        [] \<Rightarrow> [s]
      | d # r \<Rightarrow>
          takeWhile (\<lambda>c. \<not> is_digit c) s # takeWhile is_digit (d # r) #
          re_split_digits (dropWhile is_digit (d # r)))"
  by pat_completeness auto
termination
proof (relation "measure length")
  fix s :: string and d r
  assume h: "dropWhile (\<lambda>c. \<not> is_digit c) s = d # r"
  have "is_digit d"
    using hd_dropWhile [of "\<lambda>c. \<not> is_digit c" s] h by simp
  then have "length (dropWhile is_digit (d # r)) \<le> length r"
    by (simp add: length_dropWhile_le)
  moreover have "length (d # r) \<le> length s"
    using length_dropWhile_le [of "\<lambda>c. \<not> is_digit c" s] h by simp
  ultimately show "(dropWhile is_digit (d # r), s) \<in> measure length"
    by simp
qed simp

definition digit_val :: "char \<Rightarrow> nat" where
  \<comment> \<open>the position of the digit in \<open>0123456789\<close>\<close>
  "digit_val c = length (takeWhile (\<lambda>d. d \<noteq> c) ''0123456789'')"

definition nat_of_digits :: "string \<Rightarrow> nat" where
  "nat_of_digits ds = foldl (\<lambda>n c. 10 * n + digit_val c) 0 ds"

definition isdigit :: "string \<Rightarrow> bool" where
  \<comment> \<open>\<open>str.isdigit\<close>: not empty, and digits only\<close>
  "isdigit t \<longleftrightarrow> t \<noteq> [] \<and> list_all is_digit t"

text \<open>
  The elements of a sort key are integers and strings.  Python 2 orders every integer
  before every string, integers by value and strings byte by byte; lists are compared
  lexicographically.
\<close>

datatype atom = Num nat | Txt string

instantiation atom :: linorder
begin

fun less_eq_atom :: "atom \<Rightarrow> atom \<Rightarrow> bool" where
  "less_eq_atom (Num a) (Num b) \<longleftrightarrow> a \<le> b"
| "less_eq_atom (Num a) (Txt t) \<longleftrightarrow> True"
| "less_eq_atom (Txt s) (Num b) \<longleftrightarrow> False"
| "less_eq_atom (Txt s) (Txt t) \<longleftrightarrow> s \<le> t"

definition less_atom :: "atom \<Rightarrow> atom \<Rightarrow> bool" where
  "less_atom x y \<longleftrightarrow> x \<le> y \<and> \<not> y \<le> (x::atom)"

instance
proof
  fix x y z :: atom
  show "x < y \<longleftrightarrow> x \<le> y \<and> \<not> y \<le> x"
    by (simp add: less_atom_def)
  show "x \<le> x"
    by (cases x) simp_all
  show "x \<le> y \<Longrightarrow> y \<le> z \<Longrightarrow> x \<le> z"
    by (cases x; cases y; cases z) auto
  show "x \<le> y \<Longrightarrow> y \<le> x \<Longrightarrow> x = y"
    by (cases x; cases y) auto
  show "x \<le> y \<or> y \<le> x"
    by (cases x; cases y) auto
qed

end

definition convert :: "string \<Rightarrow> atom" where
  \<comment> \<open>\<open>int(text) if text.isdigit() else text\<close>\<close>
  "convert t = (if isdigit t then Num (nat_of_digits t) else Txt t)"

definition alphanum_key :: "string \<Rightarrow> atom list" where
  "alphanum_key s = map convert (re_split_digits s)"

definition natural_sort :: "('a \<Rightarrow> string) \<Rightarrow> 'a list \<Rightarrow> 'a list" where
  \<comment> \<open>\<open>list.sort(key=sort_key)\<close> is stable, as the insertion sort \<open>sort_key\<close> is\<close>
  "natural_sort key xs = sort_key (alphanum_key \<circ> key) xs"

definition sort_table :: "pin_row list \<Rightarrow> pin_row list" where
  \<comment> \<open>\<open>sort_table(data, (unit_col, pinname_col))\<close>: the last column first\<close>
  "sort_table table = natural_sort unit (natural_sort pin_name table)"

subsection \<open>Stage 4: counting the groups of power pins\<close>

definition py_int :: "string \<Rightarrow> py_error + int" where
  \<comment> \<open>\<open>int(text)\<close>: an optional sign and digits (no blank is left in a field by stage 2)\<close>
  "py_int t =
     (case t of
        [] \<Rightarrow> Inl ValueError
      | c # r \<Rightarrow>
          if c = CHR ''-'' then (if isdigit r then Inr (- int (nat_of_digits r)) else Inl ValueError)
          else if c = CHR ''+'' then (if isdigit r then Inr (int (nat_of_digits r)) else Inl ValueError)
          else if isdigit t then Inr (int (nat_of_digits t))
          else Inl ValueError)"

definition gpio_name :: "string \<Rightarrow> bool" where
  \<comment> \<open>\<open>re.match(r'^P\w\d{1,2}', name)\<close>\<close>
  "gpio_name n = (case n of p # w # d # _ \<Rightarrow> p = CHR ''P'' \<and> is_word w \<and> is_digit d | _ \<Rightarrow> False)"

definition power_names :: "pin_row list \<Rightarrow> py_error + string list" where
  \<comment> \<open>\<open>data1\<close> after \<open>del data1[0]\<close>; \<open>data\<close> still has its heading row\<close>
  "power_names data =
     (case filter (\<lambda>n. \<not> gpio_name n) (map pin_name data) of
        [] \<Rightarrow> Inl IndexError
      | _ # data1 \<Rightarrow> Inr data1)"

definition count_dict_pin_name :: "string list \<Rightarrow> string \<Rightarrow> int" where
  \<comment> \<open>\<open>Counter(row[0:5] for row in data1)[key]\<close>\<close>
  "count_dict_pin_name data1 key = int (length (filter (\<lambda>n. take 5 n = key) data1))"

record group_counts =
  avdd_tot :: int
  avss_tot :: int
  iovdd_tot :: int
  vss_tot :: int
  vssdreg_flag :: bool
  usbv_flag :: bool

definition count_groups :: "string list \<Rightarrow> group_counts" where
  "count_groups data1 =
     \<lparr>avdd_tot = count_dict_pin_name data1 ''AVDD_'',
      avss_tot = count_dict_pin_name data1 ''AVSS_'',
      iovdd_tot = count_dict_pin_name data1 ''IOVDD'',
      vss_tot = count_dict_pin_name data1 ''VSS'',
      vssdreg_flag = (count_dict_pin_name data1 ''VSS_D'' \<noteq> 0),
      usbv_flag = (count_dict_pin_name data1 ''USB_V'' \<noteq> 0)\<rparr>"

subsection \<open>The constants of the layout\<close>

definition unit4_width :: int where "unit4_width = 1000"
definition pin_length :: int where "pin_length = 300"
definition pin_left_lts :: string where "pin_left_lts = ''300 R 50 50''"
definition pin_l_x :: int where "pin_l_x = 0"
definition pin_right_lts :: string where "pin_right_lts = ''300 L 50 50''"
definition pin_r_x :: int where "pin_r_x = unit4_width + 2 * pin_length"
definition pin_y_spacing :: int where "pin_y_spacing = 100"
definition pin_y_box_offset :: int where "pin_y_box_offset = 150"

text \<open>The relative offsets \<open>up1[1]\<close> to \<open>up11[1]\<close> of the fixed-position pins.\<close>

definition up1 :: int where "up1 = 0"
definition up2 :: int where "up2 = 0"
definition up3 :: int where "up3 = 6"
definition up4 :: int where "up4 = 4"
definition up5 :: int where "up5 = 6"
definition up6 :: int where "up6 = 7"
definition up7 :: int where "up7 = 2"
definition up8 :: int where "up8 = 3"
definition up9 :: int where "up9 = 3"
definition up10 :: int where "up10 = 4"

definition bool_int :: "bool \<Rightarrow> int" where
  \<comment> \<open>a Python \<open>bool\<close> in arithmetic\<close>
  "bool_int b = (if b then 1 else 0)"

definition avdd_iovdd_max :: "group_counts \<Rightarrow> int" where
  "avdd_iovdd_max g =
     max (bool_int (usbv_flag g) * up6 + up10 + avdd_tot g) (iovdd_tot g + up3)"

subsection \<open>Stage 4B: the placement loop\<close>

record placed_pin = pin_row +
  x_pos :: int
  y_pos :: int
  lts :: string

record loop_state =
  unit_number :: int
  bound :: bool \<comment> \<open>whether the first reset has assigned the counters\<close>
  counter_row_in_unit :: int
  unit_row_sub_flag :: bool
  iovdd_row_counter :: int
  vss_row_counter :: int
  avdd_row_counter :: int
  avss_row_counter :: int
  vss_max :: "int option" \<comment> \<open>\<open>None\<close> while the name is not assigned\<close>

definition init_state :: loop_state where
  "init_state =
     \<lparr>unit_number = 0, bound = False, counter_row_in_unit = 0, unit_row_sub_flag = False,
      iovdd_row_counter = 0, vss_row_counter = 0, avdd_row_counter = 0,
      avss_row_counter = 0, vss_max = None\<rparr>"

definition reset_counters :: "loop_state \<Rightarrow> loop_state" where
  "reset_counters st =
     st\<lparr>counter_row_in_unit := 0, unit_row_sub_flag := False,
        unit_number := unit_number st + 1, iovdd_row_counter := 0, vss_row_counter := 0,
        avdd_row_counter := 0, avss_row_counter := 0, bound := True\<rparr>"

definition second_bank :: "string \<Rightarrow> bool" where
  \<comment> \<open>\<open>re.match(r'^PB|PD|PF\d{1,2}', name)\<close>: the alternatives are \<open>^PB\<close>, \<open>PD\<close>
      and \<open>PF\d{1,2}\<close>, all tried at the start of the name\<close>
  "second_bank n \<longleftrightarrow>
     starts_with ''PB'' n \<or> starts_with ''PD'' n \<or>
     (starts_with ''PF'' n \<and> (case drop 2 n of d # _ \<Rightarrow> is_digit d | [] \<Rightarrow> False))"

definition blank_row :: "string \<Rightarrow> loop_state \<Rightarrow> loop_state" where
  "blank_row n st =
     (if \<not> unit_row_sub_flag st \<and> second_bank n
      then st\<lparr>unit_row_sub_flag := True, counter_row_in_unit := counter_row_in_unit st + 1\<rparr>
      else st)"

definition default_pin :: "loop_state \<Rightarrow> pin_row \<Rightarrow> placed_pin" where
  \<comment> \<open>the five \<open>row.insert\<close> calls\<close>
  "default_pin st row =
     pin_row.extend row
       (placed_pin.fields pin_l_x (- (pin_y_spacing * counter_row_in_unit st)) pin_left_lts)"

definition m_iovdd :: "string \<Rightarrow> bool" where
  \<comment> \<open>\<open>re.match('IOVDD_\d', name)\<close>\<close>
  "m_iovdd n \<longleftrightarrow>
     starts_with ''IOVDD_'' n \<and> (case drop 6 n of d # _ \<Rightarrow> is_digit d | [] \<Rightarrow> False)"

definition m_vss :: "string \<Rightarrow> bool" where
  \<comment> \<open>\<open>re.match('VSS(?!.D)', name)\<close>\<close>
  "m_vss n \<longleftrightarrow>
     starts_with ''VSS'' n \<and>
     \<not> (case drop 3 n of x # d # _ \<Rightarrow> is_dot x \<and> d = CHR ''D'' | _ \<Rightarrow> False)"

definition m_avdd :: "string \<Rightarrow> bool" where
  \<comment> \<open>\<open>re.match('AVDD_.', name)\<close>\<close>
  "m_avdd n \<longleftrightarrow>
     starts_with ''AVDD_'' n \<and> (case drop 5 n of x # _ \<Rightarrow> is_dot x | [] \<Rightarrow> False)"

definition m_avss :: "string \<Rightarrow> bool" where
  \<comment> \<open>\<open>re.match('AVSS_.', name)\<close>\<close>
  "m_avss n \<longleftrightarrow>
     starts_with ''AVSS_'' n \<and> (case drop 5 n of x # _ \<Rightarrow> is_dot x | [] \<Rightarrow> False)"

text \<open>
  The chain of \<open>if\<close> statements of the loop body, in the order of the source.  Each
  takes the counters and the row and returns both.
\<close>

definition place_reset :: "placed_pin \<Rightarrow> placed_pin" where
  "place_reset r =
     (if pin_name r = ''RESETn''
      then r\<lparr>pin_name := ''~RESET~'', y_pos := - (up1 * pin_y_spacing), lts := pin_left_lts,
             pin_type := ''P I''\<rparr>
      else r)"

definition place_decouple :: "placed_pin \<Rightarrow> placed_pin" where
  "place_decouple r =
     (if pin_name r = ''DECOUPLE''
      then r\<lparr>x_pos := pin_r_x, y_pos := - (up2 * pin_y_spacing), lts := pin_right_lts\<rparr>
      else r)"

definition place_iovdd ::
  "group_counts \<Rightarrow> loop_state \<times> placed_pin \<Rightarrow> loop_state \<times> placed_pin" where
  "place_iovdd g sr =
     (case sr of (st, r) \<Rightarrow>
        if m_iovdd (pin_name r)
        then (st\<lparr>iovdd_row_counter := iovdd_row_counter st + 1\<rparr>,
              r\<lparr>x_pos := pin_r_x,
                y_pos := - (avdd_iovdd_max g - iovdd_tot g + iovdd_row_counter st) * pin_y_spacing,
                lts := pin_right_lts\<rparr>)
        else (st, r))"

definition place_usb :: "string \<Rightarrow> int \<Rightarrow> placed_pin \<Rightarrow> placed_pin" where
  \<comment> \<open>\<open>USB_VBUS\<close>, \<open>USB_VREGI\<close> and \<open>USB_VREGO\<close>\<close>
  "place_usb n off r =
     (if pin_name r = n
      then r\<lparr>x_pos := pin_l_x, y_pos := - (off * pin_y_spacing), lts := pin_left_lts\<rparr>
      else r)"

definition place_vdd_dreg :: "group_counts \<Rightarrow> placed_pin \<Rightarrow> placed_pin" where
  "place_vdd_dreg g r =
     (if pin_name r = ''VDD_DREG''
      then r\<lparr>x_pos := pin_r_x,
             y_pos := - (avdd_iovdd_max g - iovdd_tot g - up7) * pin_y_spacing,
             lts := pin_right_lts\<rparr>
      else r)"

definition place_vss_dreg :: "group_counts \<Rightarrow> placed_pin \<Rightarrow> placed_pin" where
  "place_vss_dreg g r =
     (if pin_name r = ''VSS_DREG''
      then r\<lparr>x_pos := pin_r_x, y_pos := - (up8 + avdd_iovdd_max g) * pin_y_spacing,
             lts := pin_right_lts\<rparr>
      else r)"

definition place_vss ::
  "group_counts \<Rightarrow> loop_state \<times> placed_pin \<Rightarrow> loop_state \<times> placed_pin" where
  "place_vss g sr =
     (case sr of (st, r) \<Rightarrow>
        if m_vss (pin_name r)
        then (st\<lparr>vss_row_counter := vss_row_counter st + 1,
                 vss_max := Some (avdd_iovdd_max g + up9 + bool_int (vssdreg_flag g) * 2 +
                                  (vss_row_counter st + 1) - 1)\<rparr>,
              r\<lparr>x_pos := pin_r_x,
                y_pos := - (avdd_iovdd_max g + up9 + bool_int (vssdreg_flag g) * 2 +
                            vss_row_counter st) * pin_y_spacing,
                lts := pin_right_lts\<rparr>)
        else (st, r))"

definition place_avdd ::
  "group_counts \<Rightarrow> loop_state \<times> placed_pin \<Rightarrow> loop_state \<times> placed_pin" where
  "place_avdd g sr =
     (case sr of (st, r) \<Rightarrow>
        if m_avdd (pin_name r)
        then (st\<lparr>avdd_row_counter := avdd_row_counter st + 1\<rparr>,
              r\<lparr>x_pos := pin_l_x,
                y_pos := - (avdd_iovdd_max g - avdd_tot g + avdd_row_counter st) * pin_y_spacing,
                lts := pin_left_lts\<rparr>)
        else (st, r))"

definition place_avss ::
  "group_counts \<Rightarrow> loop_state \<times> placed_pin \<Rightarrow> loop_state \<times> placed_pin" where
  "place_avss g sr =
     (case sr of (st, r) \<Rightarrow>
        if m_avss (pin_name r)
        then (st\<lparr>avss_row_counter := avss_row_counter st + 1\<rparr>,
              r\<lparr>x_pos := pin_l_x,
                y_pos := - (avdd_iovdd_max g + up9 + bool_int (vssdreg_flag g) * 2 +
                            vss_tot g + avss_row_counter st - avss_tot g) * pin_y_spacing,
                lts := pin_left_lts\<rparr>)
        else (st, r))"

definition place_power ::
  "group_counts \<Rightarrow> loop_state \<times> placed_pin \<Rightarrow> loop_state \<times> placed_pin" where
  "place_power g sr =
     place_avss g (place_avdd g (place_vss g
       (map_prod id
          (place_vss_dreg g \<circ> place_vdd_dreg g \<circ> place_usb ''USB_VREGO'' up6 \<circ>
           place_usb ''USB_VREGI'' up5 \<circ> place_usb ''USB_VBUS'' up4)
          (place_iovdd g (map_prod id (place_decouple \<circ> place_reset) sr)))))"

definition enter_unit :: "loop_state \<Rightarrow> int \<Rightarrow> loop_state" where
  \<comment> \<open>\<open>if int(row[unit_col]) != unit_number:\<close> reset the counters\<close>
  "enter_unit st u = (if u \<noteq> unit_number st then reset_counters st else st)"

definition loop_body ::
  "group_counts \<Rightarrow> loop_state \<Rightarrow> pin_row \<Rightarrow> py_error + loop_state \<times> placed_pin" where
  "loop_body g st row =
     (case py_int (unit row) of
        Inl e \<Rightarrow> Inl e
      | Inr u \<Rightarrow>
          (let st1 = enter_unit st u in
           if \<not> bound st1 then Inl NameError
           else
             (let st2 = blank_row (pin_name row) st1 in
              case place_power g (st2, default_pin st2 row) of
                (st3, r) \<Rightarrow>
                  Inr (st3\<lparr>counter_row_in_unit := counter_row_in_unit st3 + 1\<rparr>, r))))"

fun place_rows ::
  "group_counts \<Rightarrow> loop_state \<Rightarrow> pin_row list \<Rightarrow> py_error + loop_state \<times> placed_pin list"
  where
  "place_rows g st [] = Inr (st, [])"
| "place_rows g st (row # rows) =
     (case loop_body g st row of
        Inl e \<Rightarrow> Inl e
      | Inr (st', r) \<Rightarrow>
          (case place_rows g st' rows of
             Inl e \<Rightarrow> Inl e
           | Inr (st'', rs) \<Rightarrow> Inr (st'', r # rs)))"

subsection \<open>Stage 5: the unit box outlines\<close>

record unit_box =
  x_min :: int
  y_max :: int
  x_max :: int
  y_min :: int
  box_unit :: string

definition count_dict :: "placed_pin list \<Rightarrow> string \<Rightarrow> int" where
  \<comment> \<open>\<open>Counter(row[7] for row in data)[unit]\<close>\<close>
  "count_dict rows u = int (length (filter (\<lambda>r. unit r = u) rows))"

function groupby_unit :: "placed_pin list \<Rightarrow> (string \<times> placed_pin list) list" where
  \<comment> \<open>\<open>itertools.groupby\<close>: runs of consecutive rows with the same key\<close>
  "groupby_unit [] = []"
| "groupby_unit (r # rs) =
     (unit r, r # takeWhile (\<lambda>q. unit q = unit r) rs) #
     groupby_unit (dropWhile (\<lambda>q. unit q = unit r) rs)"
  by pat_completeness auto
termination
  by (relation "measure length") (simp_all add: length_dropWhile_le less_Suc_eq_le)

definition max_label :: "placed_pin list \<Rightarrow> int" where
  \<comment> \<open>\<open>max([len(row[1] + row[2]) for row in group])\<close>, the group is never empty\<close>
  "max_label grp = int (Max (set (map (\<lambda>r. length (pin_name r @ functionality r)) grp)))"

definition unit_box_of ::
  "placed_pin list \<Rightarrow> int option \<Rightarrow> string \<times> placed_pin list \<Rightarrow> py_error + unit_box" where
  "unit_box_of rows vmax ug =
     (case ug of (u, grp) \<Rightarrow>
        (case py_int u of
           Inl e \<Rightarrow> Inl e
         | Inr iu \<Rightarrow>
             if iu < 4 then
               Inr \<lparr>x_min = pin_length, y_max = pin_y_box_offset,
                    x_max = max_label grp * 45 + 300 + pin_length,
                    y_min = - (pin_y_spacing * count_dict rows u + pin_y_box_offset),
                    box_unit = u\<rparr>
             else
               (case vmax of
                  None \<Rightarrow> Inl NameError
                | Some v \<Rightarrow>
                    Inr \<lparr>x_min = pin_length, y_max = pin_y_box_offset,
                         x_max = unit4_width + pin_length,
                         y_min = - (v * pin_y_spacing + pin_y_box_offset),
                         box_unit = u\<rparr>)))"

fun unit_boxes_of ::
  "placed_pin list \<Rightarrow> int option \<Rightarrow> (string \<times> placed_pin list) list \<Rightarrow>
   py_error + unit_box list" where
  "unit_boxes_of rows vmax [] = Inr []"
| "unit_boxes_of rows vmax (ug # ugs) =
     (case unit_box_of rows vmax ug of
        Inl e \<Rightarrow> Inl e
      | Inr b \<Rightarrow>
          (case unit_boxes_of rows vmax ugs of Inl e \<Rightarrow> Inl e | Inr bs \<Rightarrow> Inr (b # bs)))"

definition unit_boxes :: "loop_state \<times> placed_pin list \<Rightarrow> py_error + unit_box list" where
  "unit_boxes sr = (case sr of (st, rows) \<Rightarrow> unit_boxes_of rows (vss_max st) (groupby_unit rows))"

subsection \<open>The stages put together\<close>

definition sorted_table :: "pin_row list \<Rightarrow> py_error + loop_state \<times> placed_pin list" where
  \<comment> \<open>stage 4 on \<open>data\<close> (heading row first): the final counters and the placed rows\<close>
  "sorted_table data =
     (case power_names data of
        Inl e \<Rightarrow> Inl e
      | Inr data1 \<Rightarrow> place_rows (count_groups data1) init_state (sort_table (tl data)))"

definition efm2kicad_generator ::
  "string list list \<Rightarrow> py_error + unit_box list \<times> placed_pin list" where
  "efm2kicad_generator csv_list_str =
     (case reorder_columns (em_data_list csv_list_str) of
        Inl e \<Rightarrow> Inl e
      | Inr data \<Rightarrow>
          (case sorted_table data of
             Inl e \<Rightarrow> Inl e
           | Inr sr \<Rightarrow>
               (case unit_boxes sr of Inl e \<Rightarrow> Inl e | Inr boxes \<Rightarrow> Inr (boxes, snd sr))))"

section \<open>Properties\<close>

subsection \<open>Prefix tests\<close>

lemma starts_with_take: "starts_with p s \<longleftrightarrow> take (length p) s = p"
  by (induction p s rule: starts_with.induct) auto

lemma starts_with_five: "length p = 5 \<Longrightarrow> starts_with p = (\<lambda>s. take 5 s = p)"
  by (auto simp: starts_with_take fun_eq_iff)

lemma take5_short: "length k < 5 \<Longrightarrow> take 5 n = k \<longleftrightarrow> n = k"
  by (auto simp: min_def split: if_splits)

lemma count_filter_eq: "length (filter (\<lambda>n. n = k) ns) = count_list ns k"
  by (induction ns) auto

subsection \<open>The group counter\<close>

text \<open>
  Claim C4, as the code has it: \<open>avdd_tot\<close>, \<open>avss_tot\<close> and \<open>iovdd_tot\<close> are the
  numbers of names (of pins that are not GPIO pins) whose first five characters are
  \<open>AVDD_\<close>, \<open>AVSS_\<close> and \<open>IOVDD\<close>, so that \<open>AVDD_0\<close> and \<open>AVDD_1\<close> fall into one
  group; \<open>vss_tot\<close> is the number of pins whose name is \<open>VSS\<close>, nothing more, since the
  key \<open>VSS\<close> has three characters and is compared with the first five of a name.
\<close>

theorem group_counter_first_five:
  "avdd_tot (count_groups data1) = int (length (filter (starts_with ''AVDD_'') data1)) \<and>
   avss_tot (count_groups data1) = int (length (filter (starts_with ''AVSS_'') data1)) \<and>
   iovdd_tot (count_groups data1) = int (length (filter (starts_with ''IOVDD'') data1)) \<and>
   vss_tot (count_groups data1) = int (count_list data1 ''VSS'')"
  by (simp add: count_groups_def count_dict_pin_name_def starts_with_five take5_short
      count_filter_eq)

text \<open>
  The claim as it is written fails on \<open>VSS_1\<close> and \<open>VSS_2\<close>: both begin with
  \<open>VSS\<close>, and neither is counted.
\<close>

theorem group_counter_vss_suffix_counterexample:
  "vss_tot (count_groups [''VSS_1'', ''VSS_2'']) = 0 \<and>
   length (filter (starts_with ''VSS'') [''VSS_1'', ''VSS_2'']) = 2"
  by (simp add: count_groups_def count_dict_pin_name_def)

subsection \<open>The anchor of unit 4\<close>

text \<open>
  Claim C3, as the code has it: the anchor is the larger of \<open>(7 or 0) + 4 + avdd_tot\<close>
  and \<open>iovdd_tot + 6\<close>, where the 7 is added when some pin that is not a GPIO pin has a
  name whose first five characters are \<open>USB_V\<close>: \<open>USB_VBUS\<close> and \<open>USB_VREGI\<close> count
  as \<open>USB_VREGO\<close> does.
\<close>

theorem anchor_is_max:
  "avdd_iovdd_max (count_groups data1) =
     max ((if list_ex (starts_with ''USB_V'') data1 then 7 else 0) + 4 +
          avdd_tot (count_groups data1))
         (iovdd_tot (count_groups data1) + 6)"
proof -
  have "(filter (\<lambda>n. take 5 n = ''USB_V'') data1 \<noteq> []) = list_ex (starts_with ''USB_V'') data1"
    by (induction data1) (auto simp: starts_with_five)
  then show ?thesis
    by (simp add: avdd_iovdd_max_def count_groups_def count_dict_pin_name_def bool_int_def
        up6_def up10_def up3_def)
qed

text \<open>
  The claim as it is written fails on a device with \<open>USB_VBUS\<close> and no \<open>USB_VREGO\<close>:
  the flag is set and the anchor is 11, where the claim gives \<open>max (0 + 4 + 0) (0 + 6) = 6\<close>.
\<close>

theorem anchor_usb_vbus_counterexample:
  "usbv_flag (count_groups [''USB_VBUS'']) \<and> ''USB_VREGO'' \<notin> set [''USB_VBUS''] \<and>
   avdd_iovdd_max (count_groups [''USB_VBUS'']) = 11"
  by (simp add: avdd_iovdd_max_def count_groups_def count_dict_pin_name_def bool_int_def
      up6_def up10_def up3_def)

end
